theory Spec2Isabelle
  imports Complex_Main
begin

section \<open>Python values and the built-ins the plug adapter applies to them\<close>

text \<open>
  The cached system information is a \<^verbatim>\<open>Dict[str, Any]\<close> decoded from JSON, and
  \<^verbatim>\<open>set_brightness\<close> accepts any object as its argument. \<open>pyval\<close> is the universe of
  Python values of the model: \<^verbatim>\<open>None\<close>, booleans, unbounded integers, finite floats
  (each standing for the real number it denotes), strings (a list of code points below
  256), lists, dictionaries with string keys, and naive \<^verbatim>\<open>datetime\<close> objects, counted in
  microseconds since \<^verbatim>\<open>datetime.min\<close> (0001-01-01 00:00:00).
\<close>

datatype pyval =
    PyNone
  | PyBool bool
  | PyInt int
  | PyFloat real
  | PyStr string
  | PyList "pyval list"
  | PyDict "(string \<times> pyval) list"
  | PyDatetime int

text \<open>
  Exceptions. \<open>SmartDeviceException\<close>, \<open>ValueError\<close> and \<open>KeyError\<close> carry their message or
  key. \<open>NotReady\<close> and \<open>DeviceError\<close> are raised by the base session only, see below.
\<close>

datatype error =
    NotReady
  | DeviceError
  | SmartDeviceException string
  | ValueError string
  | KeyError string
  | TypeError
  | OverflowError

definition and_then :: "error + 'a \<Rightarrow> ('a \<Rightarrow> error + 'b) \<Rightarrow> error + 'b" where
  "and_then r k = (case r of Inl e \<Rightarrow> Inl e | Inr x \<Rightarrow> k x)"

text \<open>
  \<^verbatim>\<open>isinstance(value, int)\<close> together with the integer the value compares as:
  \<^verbatim>\<open>bool\<close> is a subclass of \<^verbatim>\<open>int\<close>, \<^verbatim>\<open>True\<close> compares as 1 and \<^verbatim>\<open>False\<close> as 0.
  \<open>None\<close> means that the \<^verbatim>\<open>isinstance\<close> test is false.
\<close>

fun int_value :: "pyval \<Rightarrow> int option" where
  "int_value (PyInt n) = Some n"
| "int_value (PyBool b) = Some (if b then 1 else 0)"
| "int_value _ = None"

text \<open>\<^verbatim>\<open>bool(x)\<close>: truth value testing.\<close>

fun py_bool :: "pyval \<Rightarrow> bool" where
  "py_bool PyNone = False"
| "py_bool (PyBool b) = b"
| "py_bool (PyInt n) = (n \<noteq> 0)"
| "py_bool (PyFloat r) = (r \<noteq> 0)"
| "py_bool (PyStr s) = (s \<noteq> [])"
| "py_bool (PyList xs) = (xs \<noteq> [])"
| "py_bool (PyDict kvs) = (kvs \<noteq> [])"
| "py_bool (PyDatetime t) = True"

text \<open>
  \<^verbatim>\<open>1 - x\<close>. The difference of floats is taken over the reals; it is zero exactly when
  the float difference is, which is all \<^verbatim>\<open>bool\<close> reads of it.
\<close>

fun one_minus :: "pyval \<Rightarrow> error + pyval" where
  "one_minus (PyInt n) = Inr (PyInt (1 - n))"
| "one_minus (PyBool b) = Inr (PyInt (1 - (if b then 1 else 0)))"
| "one_minus (PyFloat r) = Inr (PyFloat (1 - r))"
| "one_minus _ = Inl TypeError"

text \<open>
  \<^verbatim>\<open>int(x)\<close>. A float is truncated towards zero. A string is a decimal literal:
  optional surrounding whitespace (tab to carriage return, space, and the code points
  133 and 160), an optional sign, and digits that single underscores may separate (no
  limit on the number of digits, as before Python 3.11). The message of the
  \<^verbatim>\<open>ValueError\<close> is kept without the literal that ends it.
\<close>

definition py_space :: "char \<Rightarrow> bool" where
  "py_space c = ((of_char c :: nat) \<in> {9, 10, 11, 12, 13, 32, 133, 160})"

definition py_digit :: "char \<Rightarrow> bool" where
  "py_digit c = (48 \<le> (of_char c :: nat) \<and> (of_char c :: nat) \<le> 57)"

definition digit_val :: "char \<Rightarrow> int" where
  "digit_val c = int (of_char c) - 48"

fun digits_tail :: "int \<Rightarrow> string \<Rightarrow> int option" where
  "digits_tail acc [] = Some acc"
| "digits_tail acc (c # cs) =
     (if py_digit c then digits_tail (10 * acc + digit_val c) cs
      else if c = CHR ''_'' then
        (case cs of
           [] \<Rightarrow> None
         | d # ds \<Rightarrow> if py_digit d then digits_tail (10 * acc + digit_val d) ds else None)
      else None)"

definition invalid_literal :: error where
  "invalid_literal = ValueError ''invalid literal for int() with base 10''"

definition int_of_digits :: "string \<Rightarrow> error + int" where
  "int_of_digits ds =
     (case ds of
        [] \<Rightarrow> Inl invalid_literal
      | d # ds' \<Rightarrow>
          if py_digit d then
            (case digits_tail (digit_val d) ds' of
               None \<Rightarrow> Inl invalid_literal
             | Some n \<Rightarrow> Inr n)
          else Inl invalid_literal)"

definition int_of_str :: "string \<Rightarrow> error + int" where
  "int_of_str s =
     (let body = rev (dropWhile py_space (rev (dropWhile py_space s)))
      in case body of
           [] \<Rightarrow> Inl invalid_literal
         | c # cs \<Rightarrow>
             if c = CHR ''-'' then and_then (int_of_digits cs) (\<lambda>n. Inr (- n))
             else if c = CHR ''+'' then int_of_digits cs
             else int_of_digits body)"

fun py_int :: "pyval \<Rightarrow> error + int" where
  "py_int (PyInt n) = Inr n"
| "py_int (PyBool b) = Inr (if b then 1 else 0)"
| "py_int (PyFloat r) = Inr (if r < 0 then - \<lfloor>- r\<rfloor> else \<lfloor>r\<rfloor>)"
| "py_int (PyStr s) = int_of_str s"
| "py_int _ = Inl TypeError"

text \<open>
  \<^verbatim>\<open>str(x)\<close> of an integer or a boolean, which is what \<^verbatim>\<open>"%s" % value\<close> formats once
  \<^verbatim>\<open>isinstance(value, int)\<close> holds. No other value reaches the format; the last equation
  only makes the function total.
\<close>

fun str_nat :: "nat \<Rightarrow> string" where
  "str_nat n =
     (if n < 10 then [''0123456789'' ! n]
      else str_nat (n div 10) @ [''0123456789'' ! (n mod 10)])"

definition str_int :: "int \<Rightarrow> string" where
  "str_int i = (if i < 0 then CHR ''-'' # str_nat (nat (- i)) else str_nat (nat i))"

fun py_str_int :: "pyval \<Rightarrow> string" where
  "py_str_int (PyBool b) = (if b then ''True'' else ''False'')"
| "py_str_int (PyInt n) = str_int n"
| "py_str_int _ = []"

text \<open>
  \<^verbatim>\<open>datetime.timedelta(seconds=x)\<close>, in microseconds. The number of days must have
  magnitude at most 999999999. A float is split into its integer part, which is
  multiplied by 1000000 exactly, and its fraction, whose product with 1000000 is a
  double-precision product, rounded to the nearest double; the sum of the two is then
  rounded to a whole number of microseconds, half to even.

  \<open>nearest_double x\<close> is the double nearest to a real \<open>x\<close> of magnitude below \<open>2 ^ 21\<close>, ties
  to even: with \<open>2 ^ e \<le> \<bar>x\<bar> < 2 ^ (e + 1)\<close> the doubles around \<open>x\<close> are the multiples of
  \<open>2 ^ (e - 52)\<close>, and of \<open>2 ^ (- 1074)\<close> when \<open>\<bar>x\<bar> < 2 ^ (- 1022)\<close>. \<open>binade n e x\<close> looks for
  that exponent downwards from \<open>e\<close>, in at most \<open>n\<close> steps.
\<close>

definition round_half_even :: "real \<Rightarrow> int" where
  "round_half_even r =
     (let f = \<lfloor>r\<rfloor>; d = r - of_int f
      in if d < 1 / 2 then f
         else if 1 / 2 < d then f + 1
         else if even f then f else f + 1)"

definition pow2 :: "int \<Rightarrow> real" where
  "pow2 e = (if 0 \<le> e then 2 ^ nat e else 1 / 2 ^ nat (- e))"

fun binade :: "nat \<Rightarrow> int \<Rightarrow> real \<Rightarrow> int" where
  "binade 0 e x = e"
| "binade (Suc n) e x = (if pow2 e \<le> x then e else binade n (e - 1) x)"

definition nearest_double :: "real \<Rightarrow> real" where
  "nearest_double x =
     (let q = pow2 (binade 1042 20 \<bar>x\<bar> - 52)
      in of_int (round_half_even (x / q)) * q)"

definition timedelta_micros :: "int \<Rightarrow> error + int" where
  "timedelta_micros us =
     (let days = us div 86400000000
      in if - 999999999 \<le> days \<and> days \<le> 999999999 then Inr us else Inl OverflowError)"

fun timedelta_seconds :: "pyval \<Rightarrow> error + int" where
  "timedelta_seconds (PyInt n) = timedelta_micros (n * 1000000)"
| "timedelta_seconds (PyBool b) = timedelta_micros ((if b then 1 else 0) * 1000000)"
| "timedelta_seconds (PyFloat r) =
     (let intpart = (if r < 0 then - \<lfloor>- r\<rfloor> else \<lfloor>r\<rfloor>);
          fracpart = r - of_int intpart
      in timedelta_micros
           (round_half_even
              (of_int (intpart * 1000000) + nearest_double (1000000 * fracpart))))"
| "timedelta_seconds _ = Inl TypeError"

text \<open>
  \<^verbatim>\<open>datetime - timedelta\<close>: the result must lie between \<^verbatim>\<open>datetime.min\<close> and
  \<^verbatim>\<open>datetime.max\<close> (9999-12-31 23:59:59.999999), 3652059 days in all.
\<close>

definition datetime_sub :: "int \<Rightarrow> int \<Rightarrow> error + int" where
  "datetime_sub t td =
     (let r = t - td
      in if 0 \<le> r \<and> r < 3652059 * 86400000000 then Inr r else Inl OverflowError)"

text \<open>\<^verbatim>\<open>d[k]\<close> on a dictionary raises \<^verbatim>\<open>KeyError\<close> for a missing key.\<close>

definition getitem :: "(string \<rightharpoonup> pyval) \<Rightarrow> string \<Rightarrow> error + pyval" where
  "getitem d k = (case d k of None \<Rightarrow> Inl (KeyError k) | Some v \<Rightarrow> Inr v)"

section \<open>The base session\<close>

text \<open>
  The module \<^verbatim>\<open>kasa.smartdevice\<close> is not part of the sources: the class \<^verbatim>\<open>SmartDevice\<close>,
  its enumeration \<^verbatim>\<open>DeviceType\<close>, its decorator \<^verbatim>\<open>requires_update\<close>, its property
  \<^verbatim>\<open>sys_info\<close> and its coroutines \<^verbatim>\<open>_query_helper\<close> and \<^verbatim>\<open>update\<close>. The spec gives its
  contract: the cached system information is valid only after one successful
  resynchronization; an accessor that requires synchronized state raises the not-ready
  error before that, reported distinctly from device and network errors; a remote call
  issues one vendor request and raises on a device or network error; a
  resynchronization refreshes the cache from the device and raises on a device or
  network error. The errors \<open>NotReady\<close> and \<open>DeviceError\<close> are these two.
\<close>

text \<open>
  Modelled from the spec: the enumeration \<^verbatim>\<open>DeviceType\<close>, the device-type tag of a
  session (plug, bulb, strip, dimmer).
\<close>

datatype DeviceType = Plug | Bulb | Strip | Dimmer | Unknown

text \<open>
  Modelled from the spec: the remote operations a session issues, a vendor request
  \<^verbatim>\<open>_query_helper(target, cmd, arg)\<close> or a resynchronization \<^verbatim>\<open>update()\<close>, and the device's
  answer to one. The answer to a remote call is its parsed result, which the plug never
  reads; the answer to a resynchronization is the new system information.
\<close>

datatype event =
    Query string string "(string \<times> pyval) list"
  | Update

datatype reply =
    Failed
  | Replied "string \<rightharpoonup> pyval"

text \<open>
  A device is any function from the operations issued so far, the current one last, to
  its answer to the current one.
\<close>

type_synonym device = "event list \<Rightarrow> reply"

text \<open>
  Modelled from the spec: the state of a \<^verbatim>\<open>SmartDevice\<close>. \<open>cached_info\<close> is the cached
  system information, \<open>None\<close> until the first successful resynchronization. \<open>issued\<close>
  records the remote operations issued on the session, oldest first.
\<close>

record smartdevice =
  host :: string
  emeter_type :: string
  device_type :: DeviceType
  cached_info :: "(string \<rightharpoonup> pyval) option"
  issued :: "event list"

text \<open>
  A coroutine runs on a session and a device, and ends with a value or an exception and
  the session it leaves. \<open>await\<close> sequences two of them: an exception of the first
  propagates.
\<close>

type_synonym 'a outcome = "(error + 'a) \<times> smartdevice"

definition await :: "'a outcome \<Rightarrow> ('a \<Rightarrow> smartdevice \<Rightarrow> 'b outcome) \<Rightarrow> 'b outcome" where
  "await r k = (case r of (Inl e, s) \<Rightarrow> (Inl e, s) | (Inr x, s) \<Rightarrow> k x s)"

text \<open>Modelled from the spec: \<^verbatim>\<open>SmartDevice.__init__(host)\<close>, a session not yet synchronized.\<close>

definition SmartDevice :: "string \<Rightarrow> smartdevice" where
  "SmartDevice h =
     \<lparr>host = h, emeter_type = [], device_type = Unknown, cached_info = None, issued = []\<rparr>"

text \<open>
  Modelled from the spec: the decorator \<^verbatim>\<open>requires_update\<close>, on a plain method and on
  a coroutine.
\<close>

definition requires_update :: "(smartdevice \<Rightarrow> error + 'a) \<Rightarrow> smartdevice \<Rightarrow> error + 'a" where
  "requires_update f s = (if cached_info s = None then Inl NotReady else f s)"

definition requires_update_async ::
  "(smartdevice \<Rightarrow> 'a outcome) \<Rightarrow> smartdevice \<Rightarrow> 'a outcome" where
  "requires_update_async f s = (if cached_info s = None then (Inl NotReady, s) else f s)"

text \<open>Modelled from the spec: the property \<^verbatim>\<open>sys_info\<close>, the read-only view of the cache.\<close>

definition sys_info :: "smartdevice \<Rightarrow> error + (string \<rightharpoonup> pyval)" where
  "sys_info s = (case cached_info s of None \<Rightarrow> Inl NotReady | Some info \<Rightarrow> Inr info)"

text \<open>Modelled from the spec: \<^verbatim>\<open>_query_helper(target, cmd, arg)\<close>, one remote call.\<close>

definition query_helper ::
  "device \<Rightarrow> string \<Rightarrow> string \<Rightarrow> (string \<times> pyval) list \<Rightarrow> smartdevice \<Rightarrow> unit outcome" where
  "query_helper dev target cmd arg s =
     (let s' = s\<lparr>issued := issued s @ [Query target cmd arg]\<rparr>
      in case dev (issued s') of
           Failed \<Rightarrow> (Inl DeviceError, s')
         | Replied result \<Rightarrow> (Inr (), s'))"

text \<open>Modelled from the spec: \<^verbatim>\<open>update()\<close>, one resynchronization of the cache.\<close>

definition update :: "device \<Rightarrow> smartdevice \<Rightarrow> unit outcome" where
  "update dev s =
     (let s' = s\<lparr>issued := issued s @ [Update]\<rparr>
      in case dev (issued s') of
           Failed \<Rightarrow> (Inl DeviceError, s')
         | Replied info \<Rightarrow> (Inr (), s'\<lparr>cached_info := Some info\<rparr>))"

section \<open>The plug\<close>

text \<open>\<^verbatim>\<open>SmartPlug.__init__\<close>\<close>

definition SmartPlug :: "string \<Rightarrow> smartdevice" where
  "SmartPlug h = (SmartDevice h)\<lparr>emeter_type := ''emeter'', device_type := Plug\<rparr>"

text \<open>The property \<^verbatim>\<open>is_dimmable\<close>: \<^verbatim>\<open>"brightness" in sys_info\<close>.\<close>

definition is_dimmable :: "smartdevice \<Rightarrow> error + bool" where
  "is_dimmable =
     requires_update (\<lambda>s.
       and_then (sys_info s) (\<lambda>sys_info.
       Inr (sys_info ''brightness'' \<noteq> None)))"

text \<open>The property \<^verbatim>\<open>brightness\<close>.\<close>

definition brightness :: "smartdevice \<Rightarrow> error + int" where
  "brightness =
     requires_update (\<lambda>s.
       and_then (is_dimmable s) (\<lambda>dimmable.
       if \<not> dimmable then Inl (SmartDeviceException ''Device is not dimmable.'')
       else
         and_then (sys_info s) (\<lambda>sys_info.
         and_then (getitem sys_info ''brightness'') py_int)))"

text \<open>The property \<^verbatim>\<open>is_on\<close>.\<close>

definition is_on :: "smartdevice \<Rightarrow> error + bool" where
  "is_on =
     requires_update (\<lambda>s.
       and_then (sys_info s) (\<lambda>sys_info.
       and_then (getitem sys_info ''relay_state'') (\<lambda>v.
       Inr (py_bool v))))"

text \<open>The coroutines \<^verbatim>\<open>turn_on\<close> and \<^verbatim>\<open>turn_off\<close>.\<close>

definition turn_on :: "device \<Rightarrow> smartdevice \<Rightarrow> unit outcome" where
  "turn_on dev s =
     await (query_helper dev ''system'' ''set_relay_state'' [(''state'', PyInt 1)] s) (\<lambda>_.
     update dev)"

definition turn_off :: "device \<Rightarrow> smartdevice \<Rightarrow> unit outcome" where
  "turn_off dev s =
     await (query_helper dev ''system'' ''set_relay_state'' [(''state'', PyInt 0)] s) (\<lambda>_.
     update dev)"

text \<open>The coroutine \<^verbatim>\<open>set_brightness\<close>.\<close>

definition set_brightness :: "device \<Rightarrow> pyval \<Rightarrow> smartdevice \<Rightarrow> unit outcome" where
  "set_brightness dev value =
     requires_update_async (\<lambda>s.
       case is_dimmable s of
         Inl e \<Rightarrow> (Inl e, s)
       | Inr dimmable \<Rightarrow>
           if \<not> dimmable then (Inl (SmartDeviceException ''Device is not dimmable.''), s)
           else
             (case int_value value of
                None \<Rightarrow> (Inl (ValueError ''Brightness must be integer, not of %s.''), s)
              | Some n \<Rightarrow>
                  if 0 < n \<and> n \<le> 100 then
                    await (turn_on dev s) (\<lambda>_ s.
                    await (query_helper dev ''smartlife.iot.dimmer'' ''set_brightness''
                             [(''brightness'', value)] s) (\<lambda>_.
                    update dev))
                  else
                    (Inl (ValueError
                           (''Brightness value '' @ py_str_int value @ '' is not valid.'')), s)))"

text \<open>The property \<^verbatim>\<open>led\<close>: \<^verbatim>\<open>bool(1 - sys_info["led_off"])\<close>.\<close>

definition led :: "smartdevice \<Rightarrow> error + bool" where
  "led =
     requires_update (\<lambda>s.
       and_then (sys_info s) (\<lambda>sys_info.
       and_then (getitem sys_info ''led_off'') (\<lambda>led_off.
       and_then (one_minus led_off) (\<lambda>d.
       Inr (py_bool d)))))"

text \<open>The coroutine \<^verbatim>\<open>set_led\<close>: the argument sent is \<^verbatim>\<open>int(not state)\<close>.\<close>

definition set_led :: "device \<Rightarrow> pyval \<Rightarrow> smartdevice \<Rightarrow> unit outcome" where
  "set_led dev state s =
     await (query_helper dev ''system'' ''set_led_off''
              [(''off'', PyInt (if \<not> py_bool state then 1 else 0))] s) (\<lambda>_.
     update dev)"

text \<open>
  The property \<^verbatim>\<open>on_since\<close>. \<open>now\<close> is what \<^verbatim>\<open>datetime.datetime.now()\<close> returns at
  the call.
\<close>

definition on_since :: "int \<Rightarrow> smartdevice \<Rightarrow> error + int" where
  "on_since now =
     requires_update (\<lambda>s.
       and_then (sys_info s) (\<lambda>sys_info.
       and_then (getitem sys_info ''on_time'') (\<lambda>on_time.
       and_then (timedelta_seconds on_time) (\<lambda>td.
       datetime_sub now td))))"

text \<open>The property \<^verbatim>\<open>state_information\<close>.\<close>

definition state_information :: "int \<Rightarrow> smartdevice \<Rightarrow> error + (string \<rightharpoonup> pyval)" where
  "state_information now =
     requires_update (\<lambda>s.
       and_then (led s) (\<lambda>l.
       and_then (on_since now s) (\<lambda>t.
       let info = [''LED state'' \<mapsto> PyBool l, ''On since'' \<mapsto> PyDatetime t]
       in and_then (is_dimmable s) (\<lambda>dimmable.
          if dimmable then and_then (brightness s) (\<lambda>b. Inr (info(''Brightness'' \<mapsto> PyInt b)))
          else Inr info))))"

section \<open>Runs and example sessions\<close>

text \<open>
  \<open>until_failure dev h es\<close> is what gets issued of the operations \<open>es\<close>, attempted in
  order after the history \<open>h\<close>: every operation up to and including the first one the
  device fails.
\<close>

fun until_failure :: "device \<Rightarrow> event list \<Rightarrow> event list \<Rightarrow> event list" where
  "until_failure dev h [] = []"
| "until_failure dev h (e # es) =
     e # (if dev (h @ [e]) = Failed then [] else until_failure dev (h @ [e]) es)"

text \<open>
  Three kinds of device: one that answers every operation and reports the same system
  information at each resynchronization, one that answers the first resynchronization
  of a session and fails every operation after it, and one that answers nothing.
\<close>

definition reports :: "(string \<rightharpoonup> pyval) \<Rightarrow> device" where
  "reports info h = Replied info"

definition drops_out :: "(string \<rightharpoonup> pyval) \<Rightarrow> device" where
  "drops_out info h = (if h = [Update] then Replied info else Failed)"

definition unreachable :: device where
  "unreachable h = Failed"

text \<open>
  Example sessions, each a new plug after one resynchronization: a dimmer, a plain plug,
  a dimmer whose device reports a brightness of 150, and a plug whose device reports no
  \<^verbatim>\<open>led_off\<close> entry. \<open>noon\<close> is a reading of the clock, in the year 2020.
\<close>

definition hs220_info :: "string \<rightharpoonup> pyval" where
  "hs220_info =
     [''relay_state'' \<mapsto> PyInt 0, ''led_off'' \<mapsto> PyInt 0, ''on_time'' \<mapsto> PyInt 3600,
      ''brightness'' \<mapsto> PyInt 50]"

definition hs220 :: smartdevice where
  "hs220 = snd (update (reports hs220_info) (SmartPlug ''192.168.1.105''))"

definition hs100_info :: "string \<rightharpoonup> pyval" where
  "hs100_info =
     [''relay_state'' \<mapsto> PyInt 1, ''led_off'' \<mapsto> PyInt 1, ''on_time'' \<mapsto> PyInt 120]"

definition hs100 :: smartdevice where
  "hs100 = snd (update (reports hs100_info) (SmartPlug ''192.168.1.106''))"

definition overdriven :: smartdevice where
  "overdriven =
     snd (update (reports (hs220_info(''brightness'' \<mapsto> PyInt 150)))
            (SmartPlug ''192.168.1.105''))"

definition no_led :: smartdevice where
  "no_led =
     snd (update (reports [''relay_state'' \<mapsto> PyInt 1, ''on_time'' \<mapsto> PyInt 120])
            (SmartPlug ''192.168.1.106''))"

definition noon :: int where
  "noon = 63740000000000000"

section \<open>Basic facts\<close>

lemmas examples =
  hs220_def hs220_info_def hs100_def hs100_info_def overdriven_def no_led_def noon_def
  SmartPlug_def SmartDevice_def update_def Let_def reports_def drops_out_def unreachable_def

lemma is_dimmable_populated:
  "cached_info s = Some info \<Longrightarrow> is_dimmable s = Inr (info ''brightness'' \<noteq> None)"
  by (simp add: is_dimmable_def requires_update_def sys_info_def and_then_def)

lemma brightness_populated:
  "cached_info s = Some info \<Longrightarrow>
   brightness s =
     (case info ''brightness'' of
        None \<Rightarrow> Inl (SmartDeviceException ''Device is not dimmable.'')
      | Some v \<Rightarrow> py_int v)"
  by (simp add: brightness_def requires_update_def is_dimmable_populated sys_info_def
      and_then_def getitem_def split: option.splits)

text \<open>
  A session is synchronized by a successful \<open>update\<close> and by nothing else: a new session
  has no cached information, a remote call leaves the cache as it is, and so does a
  failed resynchronization.
\<close>

lemma SmartPlug_not_synchronized: "cached_info (SmartPlug h) = None"
  by (simp add: SmartPlug_def SmartDevice_def)

lemma query_helper_cached_info:
  "cached_info (snd (query_helper dev target cmd arg s)) = cached_info s"
  by (simp add: query_helper_def Let_def split: reply.splits)

lemma update_cached_info:
  "cached_info (snd (update dev s)) =
     (case dev (issued s @ [Update]) of Failed \<Rightarrow> cached_info s | Replied info \<Rightarrow> Some info)"
  by (simp add: update_def Let_def split: reply.splits)

lemma query_helper_run:
  "query_helper dev target cmd arg s =
     (if dev (issued s @ [Query target cmd arg]) = Failed then Inl DeviceError else Inr (),
      s\<lparr>issued := issued s @ [Query target cmd arg]\<rparr>)"
  by (simp add: query_helper_def Let_def split: reply.splits)

lemma update_issued: "issued (snd (update dev s)) = issued s @ [Update]"
  by (simp add: update_def Let_def split: reply.splits)

lemma update_outcome:
  "fst (update dev s) = (if dev (issued s @ [Update]) = Failed then Inl DeviceError else Inr ())"
  by (simp add: update_def Let_def split: reply.splits)

text \<open>Every mutator but \<open>set_brightness\<close> is one remote call, then a resynchronization.\<close>

lemma call_then_update_issued:
  "issued (snd (await (query_helper dev target cmd arg s) (\<lambda>_. update dev))) =
     issued s @ until_failure dev (issued s) [Query target cmd arg, Update]"
  by (simp add: query_helper_run await_def update_issued)

lemma call_then_update_outcome:
  "fst (await (query_helper dev target cmd arg s) (\<lambda>_. update dev)) =
     (if dev (issued s @ [Query target cmd arg]) = Failed
        \<or> dev (issued s @ [Query target cmd arg, Update]) = Failed
      then Inl DeviceError else Inr ())"
  by (simp add: query_helper_run await_def update_outcome)

text \<open>\<open>set_brightness\<close> on a synchronized session, with the guards of the decorators resolved.\<close>

lemma set_brightness_populated:
  "cached_info s = Some info \<Longrightarrow>
   set_brightness dev v s =
     (if info ''brightness'' = None then (Inl (SmartDeviceException ''Device is not dimmable.''), s)
      else case int_value v of
             None \<Rightarrow> (Inl (ValueError ''Brightness must be integer, not of %s.''), s)
           | Some n \<Rightarrow>
               if 0 < n \<and> n \<le> 100 then
                 await (turn_on dev s) (\<lambda>_ s.
                 await (query_helper dev ''smartlife.iot.dimmer'' ''set_brightness''
                          [(''brightness'', v)] s) (\<lambda>_. update dev))
               else
                 (Inl (ValueError (''Brightness value '' @ py_str_int v @ '' is not valid.'')),
                  s))"
  by (simp add: set_brightness_def requires_update_async_def is_dimmable_populated)

text \<open>
  An accepted value makes \<open>set_brightness\<close> attempt four operations in order: the power-on
  call and the resynchronization of \<open>turn_on\<close>, the brightness call, and a
  resynchronization.
\<close>

lemma set_brightness_accepted_issued:
  assumes "cached_info s = Some info" and "info ''brightness'' \<noteq> None"
    and "int_value v = Some n" and "0 < n" and "n \<le> 100"
  shows "issued (snd (set_brightness dev v s)) =
           issued s @ until_failure dev (issued s)
             [Query ''system'' ''set_relay_state'' [(''state'', PyInt 1)], Update,
              Query ''smartlife.iot.dimmer'' ''set_brightness'' [(''brightness'', v)], Update]"
  using assms
  by (auto simp add: set_brightness_populated turn_on_def await_def query_helper_def update_def
      Let_def split: reply.splits)

section \<open>Setting the brightness\<close>

text \<open>
  Claim C1 says that \<open>set_brightness(v)\<close> with \<open>1 \<le> v \<le> 100\<close> on a synchronized dimmer
  always issues one brightness call carrying \<open>v\<close>, after a power-on call and before one
  resynchronization. It does not when the device fails an earlier operation: the
  exception of \<open>turn_on\<close> propagates, and the brightness call is never issued. Here the
  device synchronizes a new plug as a dimmer and then drops out: the power-on call is
  all that \<open>set_brightness(75)\<close> issues.
\<close>

theorem set_brightness_dropped_counterexample:
  "snd (update (drops_out hs220_info) (SmartPlug ''192.168.1.105'')) = hs220 \<and>
   cached_info hs220 = Some hs220_info \<and> hs220_info ''brightness'' \<noteq> None \<and>
   fst (set_brightness (drops_out hs220_info) (PyInt 75) hs220) = Inl DeviceError \<and>
   issued (snd (set_brightness (drops_out hs220_info) (PyInt 75) hs220)) =
     [Update, Query ''system'' ''set_relay_state'' [(''state'', PyInt 1)]] \<and>
   Query ''smartlife.iot.dimmer'' ''set_brightness'' [(''brightness'', PyInt 75)]
     \<notin> set (issued (snd (set_brightness (drops_out hs220_info) (PyInt 75) hs220)))"
  by (simp add: examples set_brightness_def requires_update_async_def is_dimmable_def
      requires_update_def sys_info_def and_then_def turn_on_def await_def query_helper_def)

text \<open>
  Claim C1, amended: for every integer \<open>v\<close> with \<open>1 \<le> v \<le> 100\<close>, on a session whose
  populated cache has the key \<^verbatim>\<open>brightness\<close>, and provided the device answers the power-on
  call, the resynchronization that follows it and the brightness call,
  \<open>set_brightness(v)\<close> issues exactly these four operations, in this order: the power-on
  call \<^verbatim>\<open>set_relay_state\<close> with state 1, the resynchronization of \<open>turn_on\<close>, one brightness
  call carrying \<open>v\<close>, and one resynchronization after it.
\<close>

theorem set_brightness_in_range:
  assumes "cached_info s = Some info" and "info ''brightness'' \<noteq> None"
    and "1 \<le> v" and "v \<le> 100"
    and "dev (issued s @ [Query ''system'' ''set_relay_state'' [(''state'', PyInt 1)]]) \<noteq> Failed"
    and "dev (issued s @ [Query ''system'' ''set_relay_state'' [(''state'', PyInt 1)], Update])
           \<noteq> Failed"
    and "dev (issued s @ [Query ''system'' ''set_relay_state'' [(''state'', PyInt 1)], Update,
                Query ''smartlife.iot.dimmer'' ''set_brightness'' [(''brightness'', PyInt v)]])
           \<noteq> Failed"
  shows "issued (snd (set_brightness dev (PyInt v) s)) =
           issued s @ [Query ''system'' ''set_relay_state'' [(''state'', PyInt 1)], Update,
                       Query ''smartlife.iot.dimmer'' ''set_brightness'' [(''brightness'', PyInt v)],
                       Update]"
proof -
  have "int_value (PyInt v) = Some v" and "0 < v"
    using assms(3) by simp_all
  then have "issued (snd (set_brightness dev (PyInt v) s)) =
               issued s @ until_failure dev (issued s)
                 [Query ''system'' ''set_relay_state'' [(''state'', PyInt 1)], Update,
                  Query ''smartlife.iot.dimmer'' ''set_brightness'' [(''brightness'', PyInt v)],
                  Update]"
    using assms(4) by (rule set_brightness_accepted_issued [OF assms(1,2)])
  then show ?thesis
    using assms(5-7) by simp
qed

theorem set_brightness_in_range_witness:
  "cached_info hs220 = Some hs220_info \<and> hs220_info ''brightness'' \<noteq> None \<and>
   issued hs220 = [Update] \<and>
   issued (snd (set_brightness (reports hs220_info) (PyInt 75) hs220)) =
     [Update,
      Query ''system'' ''set_relay_state'' [(''state'', PyInt 1)], Update,
      Query ''smartlife.iot.dimmer'' ''set_brightness'' [(''brightness'', PyInt 75)], Update]"
  using set_brightness_in_range [of hs220 hs220_info 75 "reports hs220_info"]
  by (simp add: examples)

text \<open>
  Claim C2: on a session whose populated cache has the key \<^verbatim>\<open>brightness\<close>, for every
  value \<open>v\<close> that is not an integer, or is an integer outside 1..100 (0 included),
  \<open>set_brightness(v)\<close> raises a \<^verbatim>\<open>ValueError\<close>, one message for a value that is not an
  integer and another for an integer out of range, issues no remote operation and
  leaves the session as it was.
\<close>

theorem set_brightness_invalid_value:
  assumes "cached_info s = Some info" and "info ''brightness'' \<noteq> None"
    and "\<forall>n. int_value v = Some n \<longrightarrow> n < 1 \<or> 100 < n"
  shows "set_brightness dev v s =
           (Inl (ValueError
                  (case int_value v of
                     None \<Rightarrow> ''Brightness must be integer, not of %s.''
                   | Some n \<Rightarrow> ''Brightness value '' @ py_str_int v @ '' is not valid.'')), s)
         \<and> issued (snd (set_brightness dev v s)) = issued s"
  using assms by (auto simp add: set_brightness_populated split: option.splits)

theorem set_brightness_invalid_value_witness:
  "set_brightness (reports hs220_info) (PyInt 0) hs220 =
     (Inl (ValueError ''Brightness value 0 is not valid.''), hs220) \<and>
   set_brightness (reports hs220_info) (PyInt 101) hs220 =
     (Inl (ValueError ''Brightness value 101 is not valid.''), hs220) \<and>
   set_brightness (reports hs220_info) (PyFloat 50.5) hs220 =
     (Inl (ValueError ''Brightness must be integer, not of %s.''), hs220) \<and>
   set_brightness (reports hs220_info) (PyStr ''50'') hs220 =
     (Inl (ValueError ''Brightness must be integer, not of %s.''), hs220)"
  using set_brightness_invalid_value [of hs220 hs220_info "PyInt 0" "reports hs220_info"]
    set_brightness_invalid_value [of hs220 hs220_info "PyInt 101" "reports hs220_info"]
    set_brightness_invalid_value [of hs220 hs220_info "PyFloat 50.5" "reports hs220_info"]
    set_brightness_invalid_value [of hs220 hs220_info "PyStr ''50''" "reports hs220_info"]
  by (simp add: examples str_int_def)

text \<open>
  Claim C3: on a session whose populated cache has no key \<^verbatim>\<open>brightness\<close>,
  \<open>set_brightness(v)\<close> raises the capability error for every value \<open>v\<close> and issues no
  remote operation.
\<close>

theorem set_brightness_not_dimmable:
  assumes "cached_info s = Some info" and "info ''brightness'' = None"
  shows "set_brightness dev v s = (Inl (SmartDeviceException ''Device is not dimmable.''), s)
         \<and> issued (snd (set_brightness dev v s)) = issued s"
  using assms by (simp add: set_brightness_populated)

theorem set_brightness_not_dimmable_witness:
  "cached_info hs100 = Some hs100_info \<and> hs100_info ''brightness'' = None \<and>
   set_brightness (reports hs100_info) (PyInt 50) hs100 =
     (Inl (SmartDeviceException ''Device is not dimmable.''), hs100)"
  using set_brightness_not_dimmable [of hs100 hs100_info "reports hs100_info" "PyInt 50"]
  by (simp add: examples)

section \<open>Accessors before the first resynchronization\<close>

text \<open>
  Claim C4: on a session that has not been synchronized since its construction, each of
  the accessors \<open>is_on\<close>, \<open>is_dimmable\<close>, \<open>brightness\<close>, \<open>led\<close>, \<open>on_since\<close> and
  \<open>state_information\<close> raises the not-ready error, which is not the error of a device or
  network failure; none returns a value.
\<close>

theorem accessors_not_ready:
  assumes "cached_info s = None"
  shows "is_on s = Inl NotReady \<and> is_dimmable s = Inl NotReady \<and> brightness s = Inl NotReady \<and>
         led s = Inl NotReady \<and> on_since now s = Inl NotReady \<and>
         state_information now s = Inl NotReady \<and> NotReady \<noteq> DeviceError"
  using assms
  by (simp add: is_on_def is_dimmable_def brightness_def led_def on_since_def
      state_information_def requires_update_def)

text \<open>
  The witness reads a new plug, and the same plug after a \<open>turn_on\<close> that failed at an
  unreachable device.
\<close>

theorem accessors_not_ready_witness:
  "cached_info (SmartPlug ''192.168.1.105'') = None \<and>
   is_on (SmartPlug ''192.168.1.105'') = Inl NotReady \<and>
   is_dimmable (SmartPlug ''192.168.1.105'') = Inl NotReady \<and>
   brightness (SmartPlug ''192.168.1.105'') = Inl NotReady \<and>
   led (SmartPlug ''192.168.1.105'') = Inl NotReady \<and>
   on_since noon (SmartPlug ''192.168.1.105'') = Inl NotReady \<and>
   state_information noon (SmartPlug ''192.168.1.105'') = Inl NotReady \<and>
   fst (turn_on unreachable (SmartPlug ''192.168.1.105'')) = Inl DeviceError \<and>
   is_on (snd (turn_on unreachable (SmartPlug ''192.168.1.105''))) = Inl NotReady"
  using accessors_not_ready [of "SmartPlug ''192.168.1.105''" noon]
    accessors_not_ready [of "snd (turn_on unreachable (SmartPlug ''192.168.1.105''))" noon]
  by (simp add: examples turn_on_def await_def query_helper_def)

section \<open>Accessors on a synchronized session\<close>

text \<open>
  Claim C5: for every populated cache of a dimmable device, \<open>brightness\<close> returns an
  integer between 0 and 100; the docstring of the property says so as well:
  \<^verbatim>\<open>Will return a range between 0 - 100.\<close> The code does not keep to it: it converts the cached
  entry with \<^verbatim>\<open>int\<close> and returns the result unchecked. On a new plug synchronized with a
  device that reports a brightness of 150, the device is dimmable and \<open>brightness\<close>
  returns 150.
\<close>

theorem brightness_out_of_range:
  "overdriven =
     snd (update (reports (hs220_info(''brightness'' \<mapsto> PyInt 150)))
            (SmartPlug ''192.168.1.105'')) \<and>
   cached_info overdriven = Some (hs220_info(''brightness'' \<mapsto> PyInt 150)) \<and>
   is_dimmable overdriven = Inr True \<and>
   brightness overdriven = Inr 150 \<and> \<not> (150 \<le> (100 :: int))"
  by (simp add: examples is_dimmable_def brightness_def requires_update_def sys_info_def
      and_then_def getitem_def)

text \<open>
  Claim C6 says that for every populated cache \<open>state_information\<close> contains the keys
  \<^verbatim>\<open>LED state\<close> and \<^verbatim>\<open>On since\<close>, and \<^verbatim>\<open>Brightness\<close> exactly for a dimmable device. It
  aggregates \<open>led\<close>, \<open>on_since\<close> and \<open>brightness\<close>, and their exceptions propagate: on a
  populated cache without the entry \<^verbatim>\<open>led_off\<close> it raises \<^verbatim>\<open>KeyError\<close> and returns no
  mapping.
\<close>

theorem state_information_no_led_counterexample:
  "cached_info no_led \<noteq> None \<and> state_information noon no_led = Inl (KeyError ''led_off'')"
  by (simp add: examples state_information_def led_def requires_update_def sys_info_def
      and_then_def getitem_def)

text \<open>
  Claim C6, amended: for every populated cache on which \<open>led\<close> and \<open>on_since\<close> return, and
  on which \<open>brightness\<close> returns if the key \<^verbatim>\<open>brightness\<close> is present, \<open>state_information\<close>
  returns a mapping that contains the key \<^verbatim>\<open>Brightness\<close> if and only if \<open>is_dimmable\<close> is
  true, and that contains the keys \<^verbatim>\<open>LED state\<close> and \<^verbatim>\<open>On since\<close>.
\<close>

theorem state_information_keys:
  assumes "cached_info s = Some info"
    and "led s = Inr l" and "on_since now s = Inr t"
    and "info ''brightness'' \<noteq> None \<longrightarrow> brightness s = Inr b"
  shows "\<exists>m. state_information now s = Inr m \<and>
             (''Brightness'' \<in> dom m \<longleftrightarrow> is_dimmable s = Inr True) \<and>
             ''LED state'' \<in> dom m \<and> ''On since'' \<in> dom m"
  using assms
  by (auto simp add: state_information_def requires_update_def and_then_def
      is_dimmable_populated Let_def)

theorem state_information_keys_witness:
  "led hs220 = Inr True \<and> on_since noon hs220 = Inr 63739996400000000 \<and>
   brightness hs220 = Inr 50 \<and>
   (\<exists>m. state_information noon hs220 = Inr m \<and>
        (''Brightness'' \<in> dom m \<longleftrightarrow> is_dimmable hs220 = Inr True) \<and>
        ''LED state'' \<in> dom m \<and> ''On since'' \<in> dom m)"
proof -
  have l: "led hs220 = Inr True"
    by (simp add: examples led_def requires_update_def sys_info_def and_then_def getitem_def)
  have t: "on_since noon hs220 = Inr 63739996400000000"
    by (simp add: examples on_since_def requires_update_def sys_info_def and_then_def
        getitem_def timedelta_micros_def datetime_sub_def)
  have b: "brightness hs220 = Inr 50"
    by (simp add: examples brightness_def is_dimmable_def requires_update_def sys_info_def
        and_then_def getitem_def)
  have c: "cached_info hs220 = Some hs220_info"
    by (simp add: examples)
  show ?thesis
    using state_information_keys [OF c l t, of 50] l t b by simp
qed

text \<open>
  Claim C7: for every populated cache whose \<^verbatim>\<open>led_off\<close> entry is 0 or 1 (as an integer
  or as the boolean that compares equal to it), \<open>led\<close> returns its negation: true for 0
  and false for 1.
\<close>

theorem led_negates_led_off:
  assumes "cached_info s = Some info" and "info ''led_off'' = Some v"
    and "int_value v = Some b" and "b = 0 \<or> b = 1"
  shows "led s = Inr (b = 0)"
  using assms
  by (cases v)
     (auto simp add: led_def requires_update_def sys_info_def and_then_def getitem_def
      split: if_splits)

theorem led_negates_led_off_witness:
  "hs220_info ''led_off'' = Some (PyInt 0) \<and> led hs220 = Inr True \<and>
   hs100_info ''led_off'' = Some (PyInt 1) \<and> led hs100 = Inr False"
  using led_negates_led_off [of hs220 hs220_info "PyInt 0" 0]
    led_negates_led_off [of hs100 hs100_info "PyInt 1" 1]
  by (simp add: examples)

section \<open>Mutators without a guard\<close>

text \<open>
  Claim C8 says that \<open>turn_on\<close>, \<open>turn_off\<close> and \<open>set_led\<close> can run on a new session
  without the not-ready error, and that each issues its remote call followed by a
  resynchronization. The second half fails when the device fails the remote call: the
  exception propagates and no resynchronization is issued.
\<close>

theorem turn_on_unreachable_counterexample:
  "cached_info (SmartPlug ''192.168.1.105'') = None \<and>
   fst (turn_on unreachable (SmartPlug ''192.168.1.105'')) = Inl DeviceError \<and>
   issued (snd (turn_on unreachable (SmartPlug ''192.168.1.105''))) =
     [Query ''system'' ''set_relay_state'' [(''state'', PyInt 1)]] \<and>
   Update \<notin> set (issued (snd (turn_on unreachable (SmartPlug ''192.168.1.105''))))"
  by (simp add: examples turn_on_def await_def query_helper_def)

text \<open>
  Claim C8, amended: \<open>turn_on\<close>, \<open>turn_off\<close> and \<open>set_led\<close> carry no synchronized-state
  precondition: on every session, a new one included, none raises the not-ready error,
  and each issues its remote call, followed by one resynchronization unless the remote
  call failed.
\<close>

theorem mutators_need_no_update:
  "fst (turn_on dev s) \<noteq> Inl NotReady \<and>
   issued (snd (turn_on dev s)) =
     issued s @ until_failure dev (issued s)
       [Query ''system'' ''set_relay_state'' [(''state'', PyInt 1)], Update] \<and>
   fst (turn_off dev s) \<noteq> Inl NotReady \<and>
   issued (snd (turn_off dev s)) =
     issued s @ until_failure dev (issued s)
       [Query ''system'' ''set_relay_state'' [(''state'', PyInt 0)], Update] \<and>
   fst (set_led dev state s) \<noteq> Inl NotReady \<and>
   issued (snd (set_led dev state s)) =
     issued s @ until_failure dev (issued s)
       [Query ''system'' ''set_led_off'' [(''off'', PyInt (if \<not> py_bool state then 1 else 0))],
        Update]"
  by (simp add: turn_on_def turn_off_def set_led_def call_then_update_issued
      call_then_update_outcome)

theorem mutators_need_no_update_witness:
  "cached_info (SmartPlug ''192.168.1.105'') = None \<and>
   fst (turn_on (reports hs220_info) (SmartPlug ''192.168.1.105'')) = Inr () \<and>
   issued (snd (turn_on (reports hs220_info) (SmartPlug ''192.168.1.105''))) =
     [Query ''system'' ''set_relay_state'' [(''state'', PyInt 1)], Update] \<and>
   issued (snd (turn_off (reports hs220_info) (SmartPlug ''192.168.1.105''))) =
     [Query ''system'' ''set_relay_state'' [(''state'', PyInt 0)], Update] \<and>
   issued (snd (set_led (reports hs220_info) (PyBool True) (SmartPlug ''192.168.1.105''))) =
     [Query ''system'' ''set_led_off'' [(''off'', PyInt 0)], Update]"
  using mutators_need_no_update [of "reports hs220_info" "SmartPlug ''192.168.1.105''" "PyBool True"]
  by (simp add: examples turn_on_def call_then_update_outcome)

section \<open>The order of the checks in \<open>set_brightness\<close>\<close>

text \<open>
  Claim C9: in \<open>set_brightness\<close> the capability check comes before every check of the
  value. On a session whose populated cache has no key \<^verbatim>\<open>brightness\<close>, whatever the
  argument (an integer in 1..100, a value that is not an integer, an integer out of
  range), the error raised is the capability error and never a \<^verbatim>\<open>ValueError\<close>.
\<close>

theorem capability_check_precedes_validation:
  assumes "cached_info s = Some info" and "info ''brightness'' = None"
  shows "fst (set_brightness dev v s) = Inl (SmartDeviceException ''Device is not dimmable.'')
         \<and> (\<forall>msg. fst (set_brightness dev v s) \<noteq> Inl (ValueError msg))"
  using assms by (simp add: set_brightness_populated)

theorem capability_check_precedes_validation_witness:
  "fst (set_brightness (reports hs100_info) (PyInt 50) hs100) =
     Inl (SmartDeviceException ''Device is not dimmable.'') \<and>
   fst (set_brightness (reports hs100_info) (PyStr ''high'') hs100) =
     Inl (SmartDeviceException ''Device is not dimmable.'') \<and>
   fst (set_brightness (reports hs100_info) (PyInt 0) hs100) =
     Inl (SmartDeviceException ''Device is not dimmable.'')"
  using capability_check_precedes_validation [of hs100 hs100_info "reports hs100_info" "PyInt 50"]
    capability_check_precedes_validation [of hs100 hs100_info "reports hs100_info" "PyStr ''high''"]
    capability_check_precedes_validation [of hs100 hs100_info "reports hs100_info" "PyInt 0"]
  by (simp add: examples)

text \<open>
  Claim C10 says that \<open>set_brightness(True)\<close> on a synchronized dimmer passes both checks
  and issues the power-on and brightness calls, and that \<open>set_brightness(False)\<close> raises
  the range error. The brightness call is not issued when the device fails the power-on
  call, which comes first: here the device synchronizes a new plug as a dimmer and then
  drops out.
\<close>

theorem set_brightness_true_dropped_counterexample:
  "snd (update (drops_out hs220_info) (SmartPlug ''192.168.1.105'')) = hs220 \<and>
   cached_info hs220 = Some hs220_info \<and> hs220_info ''brightness'' \<noteq> None \<and>
   fst (set_brightness (drops_out hs220_info) (PyBool True) hs220) = Inl DeviceError \<and>
   issued (snd (set_brightness (drops_out hs220_info) (PyBool True) hs220)) =
     [Update, Query ''system'' ''set_relay_state'' [(''state'', PyInt 1)]] \<and>
   Query ''smartlife.iot.dimmer'' ''set_brightness'' [(''brightness'', PyBool True)]
     \<notin> set (issued (snd (set_brightness (drops_out hs220_info) (PyBool True) hs220)))"
  by (simp add: examples set_brightness_def requires_update_async_def is_dimmable_def
      requires_update_def sys_info_def and_then_def turn_on_def await_def query_helper_def)

text \<open>
  Claim C10, amended: \<open>set_brightness\<close> accepts booleans as integers. On a session whose
  populated cache has the key \<^verbatim>\<open>brightness\<close>, \<open>set_brightness(True)\<close> passes the type check
  and the range check and attempts, in order, the power-on call, a resynchronization,
  the brightness call carrying \<^verbatim>\<open>True\<close> and a resynchronization, issuing each until the
  device fails one; \<open>set_brightness(False)\<close> passes the type check and raises the range
  error, with nothing issued.
\<close>

theorem set_brightness_accepts_bool:
  assumes "cached_info s = Some info" and "info ''brightness'' \<noteq> None"
  shows "issued (snd (set_brightness dev (PyBool True) s)) =
           issued s @ until_failure dev (issued s)
             [Query ''system'' ''set_relay_state'' [(''state'', PyInt 1)], Update,
              Query ''smartlife.iot.dimmer'' ''set_brightness'' [(''brightness'', PyBool True)],
              Update]
         \<and> set_brightness dev (PyBool False) s =
             (Inl (ValueError ''Brightness value False is not valid.''), s)"
  using assms set_brightness_accepted_issued [OF assms, of "PyBool True" 1 dev]
  by (auto simp add: set_brightness_populated)

theorem set_brightness_accepts_bool_witness:
  "cached_info hs220 = Some hs220_info \<and> hs220_info ''brightness'' \<noteq> None \<and>
   issued (snd (set_brightness (reports hs220_info) (PyBool True) hs220)) =
     [Update,
      Query ''system'' ''set_relay_state'' [(''state'', PyInt 1)], Update,
      Query ''smartlife.iot.dimmer'' ''set_brightness'' [(''brightness'', PyBool True)], Update] \<and>
   set_brightness (reports hs220_info) (PyBool False) hs220 =
     (Inl (ValueError ''Brightness value False is not valid.''), hs220)"
  using set_brightness_accepts_bool [of hs220 hs220_info "reports hs220_info"]
  by (simp add: examples)

end
